theory Spec2Isabelle
  imports Complex_Main
begin

section \<open>Calendar dates\<close>

text \<open>
  The date index of every table is a \<^verbatim>\<open>pd.Timestamp\<close> at midnight. A timestamp is
  kept as the number of its calendar month, \<open>year * 12 + (month - 1)\<close>, and the day of
  that month, so that every value has a month between 1 and 12 and the order of
  timestamps is the lexicographic order of the two components.
\<close>

datatype timestamp = Stamp (months: int) (day: int)

definition Timestamp :: "int \<Rightarrow> int \<Rightarrow> int \<Rightarrow> timestamp" where
  "Timestamp y m d = Stamp (y * 12 + (m - 1)) d"

definition year :: "timestamp \<Rightarrow> int" where
  "year t = months t div 12"

definition month :: "timestamp \<Rightarrow> int" where
  "month t = months t mod 12 + 1"

definition ts_le :: "timestamp \<Rightarrow> timestamp \<Rightarrow> bool" where
  "ts_le a b = (months a < months b \<or> (months a = months b \<and> day a \<le> day b))"

definition ts_lt :: "timestamp \<Rightarrow> timestamp \<Rightarrow> bool" where
  "ts_lt a b = (months a < months b \<or> (months a = months b \<and> day a < day b))"

text \<open>
  \<^verbatim>\<open>t + pd.DateOffset(months=1)\<close>. The program applies it to first days of a month
  only, where the day is kept.
\<close>

definition add_month :: "timestamp \<Rightarrow> timestamp" where
  "add_month t = Stamp (months t + 1) (day t)"

section \<open>Tables\<close>

text \<open>
  A row of the table \<^verbatim>\<open>get_portfolio_data\<close> returns: the date of the index, the
  weighted return columns in the order they were joined (\<open>None\<close> is NaN), and the
  two derived columns.
\<close>

record portfolio_row =
  date :: timestamp
  weighted :: "real option list"
  portfolio_return :: real
  cumulative_return :: real

text \<open>A row of the table \<^verbatim>\<open>simulate_growth\<close> returns.\<close>

record investment_row =
  idx :: timestamp
  return :: real
  contribution :: real
  cumulative_contribution :: real
  portfolio_value :: real

datatype py_error = IndexError

section \<open>The growth simulation (app.py, simulate\_growth)\<close>

text \<open>Lines 55 to 59: the first day of the month after the month of \<open>current_date\<close>.\<close>

definition first_of_next_month :: "timestamp \<Rightarrow> timestamp" where
  "first_of_next_month current_date =
     (if month current_date = 12 then Timestamp (year current_date + 1) 1 1
      else Timestamp (year current_date) (month current_date + 1) 1)"

text \<open>Lines 62 to 65: the dates of the index within \<open>[next_month, next_month + 1 month)\<close>.\<close>

definition month_dates :: "timestamp list \<Rightarrow> timestamp \<Rightarrow> timestamp list" where
  "month_dates index next_month =
     filter (\<lambda>d. ts_le next_month d \<and> ts_lt d (add_month next_month)) index"

text \<open>
  \<^verbatim>\<open>investments.loc[d, 'contribution'] = v\<close>: the contribution of every row
  labelled \<open>d\<close> is replaced. The contribution column is kept with its index.
\<close>

definition loc_set :: "timestamp \<Rightarrow> real \<Rightarrow> (timestamp \<times> real) list \<Rightarrow> (timestamp \<times> real) list" where
  "loc_set d v col = map (\<lambda>(d', c). if d' = d then (d', v) else (d', c)) col"

text \<open>Lines 68 and 69, one pass of the body of the loop over the months.\<close>

definition contribute :: "real \<Rightarrow> (timestamp \<times> real) list \<Rightarrow> timestamp \<Rightarrow> (timestamp \<times> real) list" where
  "contribute monthly_contribution col next_month =
     (let md = month_dates (map fst col) next_month in
      if length md > 0 \<and> hd md \<noteq> fst (hd col) then loc_set (hd md) monthly_contribution col
      else col)"

text \<open>
  Lines 53 to 72: the loop. Line 72 sets \<open>current_date\<close> to \<open>next_month + 1 month\<close>.
\<close>

function add_contributions ::
  "timestamp \<Rightarrow> real \<Rightarrow> (timestamp \<times> real) list \<Rightarrow> timestamp \<Rightarrow> (timestamp \<times> real) list" where
  "add_contributions end_date monthly_contribution col current_date =
     (if ts_le current_date end_date then
        add_contributions end_date monthly_contribution
          (contribute monthly_contribution col (first_of_next_month current_date))
          (add_month (first_of_next_month current_date))
      else col)"
  by pat_completeness auto

lemma months_first_of_next_month: "months (first_of_next_month t) = months t + 1"
proof (cases "month t = 12")
  case True
  then have "months t mod 12 = 11"
    by (simp add: month_def)
  then have "months t = (months t div 12) * 12 + 11"
    by (metis mult.commute mult_div_mod_eq)
  with True show ?thesis
    by (simp add: first_of_next_month_def Timestamp_def year_def)
next
  case False
  have "months t = (months t div 12) * 12 + months t mod 12"
    by simp
  with False show ?thesis
    by (simp add: first_of_next_month_def Timestamp_def year_def month_def)
qed

lemma day_first_of_next_month: "day (first_of_next_month t) = 1"
  by (simp add: first_of_next_month_def Timestamp_def)

termination add_contributions
proof (relation "measure (\<lambda>(end_date, m, col, current_date). nat (months end_date + 1 - months current_date))")
  show "wf (measure (\<lambda>(end_date, m, col, current_date). nat (months end_date + 1 - months current_date)))"
    by simp
next
  fix end_date :: timestamp and monthly_contribution :: real
    and col :: "(timestamp \<times> real) list" and current_date :: timestamp
  assume "ts_le current_date end_date"
  then have "months current_date \<le> months end_date"
    by (auto simp: ts_le_def)
  then show "((end_date, monthly_contribution,
        contribute monthly_contribution col (first_of_next_month current_date),
        add_month (first_of_next_month current_date)),
       (end_date, monthly_contribution, col, current_date))
      \<in> measure (\<lambda>(end_date, m, col, current_date). nat (months end_date + 1 - months current_date))"
    by (simp add: add_month_def months_first_of_next_month)
qed

declare add_contributions.simps [simp del]

text \<open>Line 75: \<^verbatim>\<open>cumsum\<close>, the running sum from \<open>acc\<close>.\<close>

fun cumsum :: "real \<Rightarrow> real list \<Rightarrow> real list" where
  "cumsum acc [] = []"
| "cumsum acc (x # xs) = (acc + x) # cumsum (acc + x) xs"

text \<open>
  Lines 81 to 88: the loop over the rows, from row \<open>i\<close> with the running \<open>value\<close>; a row
  is its return and its contribution.
\<close>

fun value_loop :: "nat \<Rightarrow> real \<Rightarrow> (real \<times> real) list \<Rightarrow> real list" where
  "value_loop i value [] = []"
| "value_loop i value ((r, c) # rows) =
     (let value' = (if i > 0 then value * (1 + r) + c else value)
      in value' # value_loop (i + 1) value' rows)"

definition make_rows ::
  "timestamp list \<Rightarrow> real list \<Rightarrow> real list \<Rightarrow> real list \<Rightarrow> real list \<Rightarrow> investment_row list" where
  "make_rows ds rs cs ccs vs =
     map (\<lambda>(d, r, c, cc, v).
            \<lparr>idx = d, return = r, contribution = c, cumulative_contribution = cc,
             portfolio_value = v\<rparr>)
         (zip ds (zip rs (zip cs (zip ccs vs))))"

text \<open>
  The whole function. \<open>Inr None\<close> is the returned \<^verbatim>\<open>None\<close>; \<open>Inl IndexError\<close> is the
  exception of the positional write of line 47 into a table with no row.
\<close>

definition simulate_growth ::
  "portfolio_row list option \<Rightarrow> real \<Rightarrow> real \<Rightarrow> py_error + investment_row list option" where
  "simulate_growth portfolio_data initial_investment monthly_contribution =
     (case portfolio_data of
        None \<Rightarrow> Inr None
      | Some table \<Rightarrow>
          (let index = map date table;
               returns = map portfolio_return table
           in if index = [] then Inl IndexError
              else
                (let col0 = (map (\<lambda>d. (d, 0)) index)[0 := (hd index, initial_investment)];
                     col = add_contributions (last index) monthly_contribution col0 (hd index);
                     contributions = map snd col
                 in Inr (Some (make_rows index returns contributions
                       (cumsum 0 contributions)
                       (value_loop 0 initial_investment (zip returns contributions)))))))"

section \<open>The catalog (portfolio\_definitions.py)\<close>

text \<open>
  The two dictionaries of the module, in the order they are written. A dictionary is
  looked up with \<open>map_of\<close> and iterated in the order of its list; it has every key
  once.
\<close>

definition file_mapping :: "(string \<times> string) list" where
  "file_mapping =
     [(''VT'', ''HistoricalPrices_VT.csv''),
      (''BND'', ''HistoricalPrices_VBTLX.csv''),
      (''VTI'', ''HistoricalPrices_VTSAX.csv''),
      (''VXUS'', ''HistoricalPrices_VTIAX.csv''),
      (''TIP'', ''HistoricalPrices_VAIPX.csv''),
      (''ITOT'', ''HistoricalPrices_VTSAX.csv''),
      (''IXUS'', ''HistoricalPrices_VTIAX.csv'')]"

definition portfolios :: "(string \<times> (string \<times> real) list) list" where
  "portfolios =
     [(''Two-fund Portfolio'', [(''VT'', 60 / 100), (''BND'', 40 / 100)]),
      (''Taylor Larimore's Three-Fund Portfolio'',
         [(''VTI'', 34 / 100), (''VXUS'', 33 / 100), (''BND'', 33 / 100)]),
      (''Scott Burns' Margarita Portfolio'',
         [(''ITOT'', 34 / 100), (''IXUS'', 33 / 100), (''TIP'', 33 / 100)]),
      (''Rick Ferri's Lazy Three-Fund Portfolio'',
         [(''VTI'', 40 / 100), (''VXUS'', 20 / 100), (''BND'', 40 / 100)])]"

section \<open>Reading the price series (csv\_data\_reader.py)\<close>

text \<open>
  The directory of CSV files is a function from a file name to the rows of the file as
  \<^verbatim>\<open>read_csv\<close> and \<^verbatim>\<open>to_datetime\<close> give them, the date and the closing price of
  each row in the order of the file; \<open>None\<close> when the file does not exist or reading it
  raises. Closing prices are taken to be non-zero numbers, so that no return is
  infinite; NaN is \<open>None\<close>.
\<close>

type_synonym historical_data = "string \<Rightarrow> (timestamp \<times> real) list option"

record ticker_row =
  tdate :: timestamp
  close :: real
  daily_return :: "real option"

text \<open>
  \<^verbatim>\<open>sort_index\<close>: the rows in the order of their dates; rows of the same date keep
  the order they have in the file.
\<close>

fun insert_row :: "timestamp \<times> real \<Rightarrow> (timestamp \<times> real) list \<Rightarrow> (timestamp \<times> real) list" where
  "insert_row x [] = [x]"
| "insert_row x (y # ys) = (if ts_le (fst x) (fst y) then x # y # ys else y # insert_row x ys)"

fun sort_index :: "(timestamp \<times> real) list \<Rightarrow> (timestamp \<times> real) list" where
  "sort_index [] = []"
| "sort_index (x # xs) = insert_row x (sort_index xs)"

text \<open>
  \<^verbatim>\<open>pct_change\<close>: NaN in the first row, then the price over the price before,
  minus one. After a price of 0 the quotient of the program is infinite or NaN, which a
  real number cannot be: the model is that of files with no price of 0.
\<close>

fun pct_change_from :: "real \<Rightarrow> real list \<Rightarrow> real option list" where
  "pct_change_from prev [] = []"
| "pct_change_from prev (x # xs) = Some (x / prev - 1) # pct_change_from x xs"

definition pct_change :: "real list \<Rightarrow> real option list" where
  "pct_change xs = (case xs of [] \<Rightarrow> [] | x # rest \<Rightarrow> None # pct_change_from x rest)"

definition load_ticker_data ::
  "(string \<times> string) list \<Rightarrow> historical_data \<Rightarrow> string \<Rightarrow> ticker_row list option" where
  "load_ticker_data mapping files ticker =
     (case map_of mapping ticker of
        None \<Rightarrow> None
      | Some filename \<Rightarrow>
          (case files filename of
             None \<Rightarrow> None
           | Some rows \<Rightarrow>
               (let df = sort_index rows
                in Some (map (\<lambda>((d, c), r). \<lparr>tdate = d, close = c, daily_return = r\<rparr>)
                          (zip df (pct_change (map snd df)))))))"

definition get_ticker_data_for_period ::
  "(string \<times> string) list \<Rightarrow> historical_data \<Rightarrow> string \<Rightarrow> timestamp option \<Rightarrow> timestamp option
     \<Rightarrow> ticker_row list option" where
  "get_ticker_data_for_period mapping files ticker start_date end_date =
     (case load_ticker_data mapping files ticker of
        None \<Rightarrow> None
      | Some df \<Rightarrow>
          (let df1 = (case start_date of None \<Rightarrow> df
                      | Some s \<Rightarrow> filter (\<lambda>row. ts_le s (tdate row)) df);
               df2 = (case end_date of None \<Rightarrow> df1
                      | Some e \<Rightarrow> filter (\<lambda>row. ts_le (tdate row) e) df1)
           in Some df2))"

section \<open>The portfolio returns (csv\_data\_reader.py, get\_portfolio\_data)\<close>

text \<open>
  Line 111: the weighted column of a ticker with its index; NaN times the weight is NaN.
\<close>

definition weighted_column :: "real \<Rightarrow> ticker_row list \<Rightarrow> (timestamp \<times> real option) list" where
  "weighted_column weight ticker_data =
     map (\<lambda>row. (tdate row, map_option (\<lambda>r. r * weight) (daily_return row))) ticker_data"

text \<open>
  Line 117: \<^verbatim>\<open>result.join(column)\<close>, the left join of pandas on the index. Every row of
  \<open>result\<close> is kept, in its place; it gets the value of the row of the column with its
  date, NaN when there is none, and is repeated for every such row when there are
  several. A date of the column that \<open>result\<close> does not have is dropped.
\<close>

definition join :: "(timestamp \<times> real option list) list \<Rightarrow> (timestamp \<times> real option) list
    \<Rightarrow> (timestamp \<times> real option list) list" where
  "join result col =
     concat (map (\<lambda>(d, vs).
                    (case filter (\<lambda>(d', v). d' = d) col of
                       [] \<Rightarrow> [(d, vs @ [None])]
                     | ms \<Rightarrow> map (\<lambda>(d', v). (d, vs @ [v])) ms))
                 result)"

text \<open>Lines 102 to 117: the loop over the tickers of the portfolio, from \<open>result\<close>.\<close>

fun join_tickers ::
  "(string \<times> string) list \<Rightarrow> historical_data \<Rightarrow> timestamp option \<Rightarrow> timestamp option
     \<Rightarrow> (timestamp \<times> real option list) list option \<Rightarrow> (string \<times> real) list
     \<Rightarrow> (timestamp \<times> real option list) list option" where
  "join_tickers mapping files start_date end_date result [] = result"
| "join_tickers mapping files start_date end_date result ((ticker, weight) # items) =
     (case get_ticker_data_for_period mapping files ticker start_date end_date of
        None \<Rightarrow> join_tickers mapping files start_date end_date result items
      | Some ticker_data \<Rightarrow>
          (case result of
             None \<Rightarrow>
               join_tickers mapping files start_date end_date
                 (Some (map (\<lambda>(d, v). (d, [v])) (weighted_column weight ticker_data))) items
           | Some res \<Rightarrow>
               join_tickers mapping files start_date end_date
                 (Some (join res (weighted_column weight ticker_data))) items))"

text \<open>Line 123: the sum of a row over the weighted columns; NaN is skipped.\<close>

definition row_sum :: "real option list \<Rightarrow> real" where
  "row_sum vs = sum_list (map (\<lambda>v. case v of None \<Rightarrow> 0 | Some x \<Rightarrow> x) vs)"

text \<open>Line 126: \<^verbatim>\<open>cumprod\<close>, the running product from \<open>acc\<close>.\<close>

fun cumprod :: "real \<Rightarrow> real list \<Rightarrow> real list" where
  "cumprod acc [] = []"
| "cumprod acc (x # xs) = (acc * x) # cumprod (acc * x) xs"

definition finish_table :: "(timestamp \<times> real option list) list \<Rightarrow> portfolio_row list" where
  "finish_table result =
     (let returns = map (\<lambda>(d, vs). row_sum vs) result;
          cumulative = map (\<lambda>p. p * 100) (cumprod 1 (map (\<lambda>r. 1 + r) returns))
      in map (\<lambda>((d, vs), r, c).
                \<lparr>date = d, weighted = vs, portfolio_return = r, cumulative_return = c\<rparr>)
             (zip result (zip returns cumulative)))"

text \<open>
  The whole function; the two dictionaries of the module and the directory of files are
  its first three arguments.
\<close>

definition get_portfolio_data ::
  "(string \<times> (string \<times> real) list) list \<Rightarrow> (string \<times> string) list \<Rightarrow> historical_data
     \<Rightarrow> string \<Rightarrow> timestamp option \<Rightarrow> timestamp option \<Rightarrow> portfolio_row list option" where
  "get_portfolio_data catalog mapping files portfolio_name start_date end_date =
     (case map_of catalog portfolio_name of
        None \<Rightarrow> None
      | Some portfolio \<Rightarrow>
          (case join_tickers mapping files start_date end_date None portfolio of
             None \<Rightarrow> None
           | Some result \<Rightarrow> Some (finish_table result)))"

text \<open>
  For the statements about the join: the weighted columns of the tickers of a portfolio
  that have data, in the order of the portfolio, and what a column gives on a date (its
  value there, 0 when it has no row of that date or NaN in it).
\<close>

definition available_columns ::
  "(string \<times> string) list \<Rightarrow> historical_data \<Rightarrow> timestamp option \<Rightarrow> timestamp option
     \<Rightarrow> (string \<times> real) list \<Rightarrow> (timestamp \<times> real option) list list" where
  "available_columns mapping files start_date end_date portfolio =
     concat (map (\<lambda>(ticker, weight).
                    (case get_ticker_data_for_period mapping files ticker start_date end_date of
                       None \<Rightarrow> []
                     | Some ticker_data \<Rightarrow> [weighted_column weight ticker_data]))
                 portfolio)"

definition value_on :: "timestamp \<Rightarrow> (timestamp \<times> real option) list \<Rightarrow> real" where
  "value_on d col = (case map_of col d of Some (Some v) \<Rightarrow> v | _ \<Rightarrow> 0)"


section \<open>The statistics (app.py, lines 340 to 345)\<close>

text \<open>
  \<^verbatim>\<open>Series.mean\<close> and \<^verbatim>\<open>Series.std\<close> of pandas: the mean of no value is NaN, and
  the standard deviation is that of a sample (it divides by the number of values minus
  one), NaN for fewer than two values.
\<close>

definition mean :: "real list \<Rightarrow> real option" where
  "mean xs = (if xs = [] then None else Some (sum_list xs / real (length xs)))"

definition std :: "real list \<Rightarrow> real option" where
  "std xs =
     (if length xs < 2 then None
      else (let m = sum_list xs / real (length xs)
            in Some (sqrt (sum_list (map (\<lambda>x. (x - m)\<^sup>2) xs) / real (length xs - 1)))))"

text \<open>\<^verbatim>\<open>cummax\<close>, the running maximum, and \<^verbatim>\<open>min\<close>, NaN for no value.\<close>

fun cummax_from :: "real \<Rightarrow> real list \<Rightarrow> real list" where
  "cummax_from m [] = []"
| "cummax_from m (x # xs) = max m x # cummax_from (max m x) xs"

definition cummax :: "real list \<Rightarrow> real list" where
  "cummax xs = (case xs of [] \<Rightarrow> [] | x # rest \<Rightarrow> x # cummax_from x rest)"

definition min_col :: "real list \<Rightarrow> real option" where
  "min_col xs = (case xs of [] \<Rightarrow> None | x # rest \<Rightarrow> Some (fold min rest x))"

record statistics =
  annual_return :: "real option"
  annual_risk :: "real option"
  sharpe :: "real option"
  max_drawdown :: "real option"

text \<open>
  Line 344: \<^verbatim>\<open>annual_return / annual_risk if annual_risk != 0 else 0\<close>. NaN differs
  from 0, and a quotient with NaN is NaN.
\<close>

definition sharpe_ratio :: "real option \<Rightarrow> real option \<Rightarrow> real option" where
  "sharpe_ratio ret risk =
     (if risk \<noteq> Some 0 then
        (case (ret, risk) of (Some a, Some b) \<Rightarrow> Some (a / b) | _ \<Rightarrow> None)
      else Some 0)"

text \<open>Line 345, on the column of cumulative returns.\<close>

definition drawdown :: "real list \<Rightarrow> real option" where
  "drawdown cumulative =
     min_col (map (\<lambda>(c, m). c / m - 1) (zip cumulative (cummax cumulative)))"

definition compute_stats :: "portfolio_row list \<Rightarrow> statistics" where
  "compute_stats portfolio_data =
     (let returns = map portfolio_return portfolio_data;
          ar = map_option (\<lambda>m. (1 + m) ^ 252 - 1) (mean returns);
          risk = map_option (\<lambda>s. s * sqrt 252) (std returns)
      in \<lparr>annual_return = ar, annual_risk = risk, sharpe = sharpe_ratio ar risk,
          max_drawdown = drawdown (map cumulative_return portfolio_data)\<rparr>)"

section \<open>Example inputs\<close>

text \<open>
  A series of three trading days, and a series of thirteen calendar months (January 2020
  to January 2021) with one trading day, the 15th, in each month and a return of zero on
  every day.
\<close>

definition three_days :: "portfolio_row list" where
  "three_days =
     [\<lparr>date = Timestamp 2020 1 15, weighted = [], portfolio_return = 0, cumulative_return = 100\<rparr>,
      \<lparr>date = Timestamp 2020 2 14, weighted = [], portfolio_return = 1 / 100, cumulative_return = 101\<rparr>,
      \<lparr>date = Timestamp 2020 2 18, weighted = [], portfolio_return = - 1 / 100,
        cumulative_return = 9999 / 100\<rparr>]"

definition flat_row :: "timestamp \<Rightarrow> portfolio_row" where
  "flat_row d = \<lparr>date = d, weighted = [], portfolio_return = 0, cumulative_return = 100\<rparr>"

definition thirteen_months :: "portfolio_row list" where
  "thirteen_months =
     map flat_row
       [Timestamp 2020 1 15, Timestamp 2020 2 15, Timestamp 2020 3 15, Timestamp 2020 4 15,
        Timestamp 2020 5 15, Timestamp 2020 6 15, Timestamp 2020 7 15, Timestamp 2020 8 15,
        Timestamp 2020 9 15, Timestamp 2020 10 15, Timestamp 2020 11 15, Timestamp 2020 12 15,
        Timestamp 2021 1 15]"

text \<open>
  Two directories of files. In the first the file of VT has three trading days and the
  file of BND the same three and one more; the second has the file of BND only. The two
  tables are what the Two-fund Portfolio gives on them.
\<close>

definition example_files :: historical_data where
  "example_files filename =
     (if filename = ''HistoricalPrices_VT.csv'' then
        Some [(Timestamp 2020 1 2, 100), (Timestamp 2020 1 3, 101),
              (Timestamp 2020 1 6, 10302 / 100)]
      else if filename = ''HistoricalPrices_VBTLX.csv'' then
        Some [(Timestamp 2020 1 2, 50), (Timestamp 2020 1 3, 50), (Timestamp 2020 1 6, 495 / 10),
              (Timestamp 2020 1 7, 495 / 10)]
      else None)"

definition bond_files :: historical_data where
  "bond_files filename =
     (if filename = ''HistoricalPrices_VBTLX.csv'' then
        Some [(Timestamp 2020 1 2, 50), (Timestamp 2020 1 3, 50), (Timestamp 2020 1 6, 495 / 10),
              (Timestamp 2020 1 7, 495 / 10)]
      else None)"

definition two_fund_table :: "portfolio_row list" where
  "two_fund_table =
     [\<lparr>date = Timestamp 2020 1 2, weighted = [None, None], portfolio_return = 0,
        cumulative_return = 100\<rparr>,
      \<lparr>date = Timestamp 2020 1 3, weighted = [Some (6 / 1000), Some 0],
        portfolio_return = 6 / 1000, cumulative_return = 1006 / 10\<rparr>,
      \<lparr>date = Timestamp 2020 1 6, weighted = [Some (12 / 1000), Some (- 4 / 1000)],
        portfolio_return = 8 / 1000, cumulative_return = 1014048 / 10000\<rparr>]"

definition bond_only_table :: "portfolio_row list" where
  "bond_only_table =
     [\<lparr>date = Timestamp 2020 1 2, weighted = [None], portfolio_return = 0,
        cumulative_return = 100\<rparr>,
      \<lparr>date = Timestamp 2020 1 3, weighted = [Some 0], portfolio_return = 0,
        cumulative_return = 100\<rparr>,
      \<lparr>date = Timestamp 2020 1 6, weighted = [Some (- 4 / 1000)], portfolio_return = - 4 / 1000,
        cumulative_return = 996 / 10\<rparr>,
      \<lparr>date = Timestamp 2020 1 7, weighted = [Some 0], portfolio_return = 0,
        cumulative_return = 996 / 10\<rparr>]"

text \<open>The table of the Two-fund Portfolio on the first directory from 6 January to 30 April 2020.\<close>

definition one_day_table :: "portfolio_row list" where
  "one_day_table =
     [\<lparr>date = Timestamp 2020 1 6, weighted = [Some (12 / 1000), Some (- 4 / 1000)],
        portfolio_return = 8 / 1000, cumulative_return = 1008 / 10\<rparr>]"

text \<open>
  A directory with the files of VTI and BND and no file of VXUS, and the table of Rick
  Ferri's portfolio on it.
\<close>

definition partial_files :: historical_data where
  "partial_files filename =
     (if filename = ''HistoricalPrices_VTSAX.csv'' then
        Some [(Timestamp 2020 1 2, 100), (Timestamp 2020 1 3, 101),
              (Timestamp 2020 1 6, 10302 / 100)]
      else if filename = ''HistoricalPrices_VBTLX.csv'' then
        Some [(Timestamp 2020 1 2, 50), (Timestamp 2020 1 3, 50), (Timestamp 2020 1 6, 495 / 10),
              (Timestamp 2020 1 7, 495 / 10)]
      else None)"


section \<open>Properties of the growth simulation\<close>

lemmas simulate_eval =
  simulate_growth_def Let_def add_contributions.simps contribute_def month_dates_def
  loc_set_def first_of_next_month_def Timestamp_def year_def month_def ts_le_def ts_lt_def
  add_month_def make_rows_def

lemma map_fst_loc_set: "map fst (loc_set d v col) = map fst col"
  by (induction col) (auto simp: loc_set_def)

lemma map_fst_contribute: "map fst (contribute m col nm) = map fst col"
  by (simp add: contribute_def Let_def map_fst_loc_set)

lemma map_fst_add_contributions:
  "map fst (add_contributions end_date m col current_date) = map fst col"
proof (induction end_date m col current_date rule: add_contributions.induct)
  case (1 end_date m col current_date)
  show ?case
  proof (cases "ts_le current_date end_date")
    case True
    with "1.IH" show ?thesis
      by (subst add_contributions.simps) (simp add: map_fst_contribute)
  next
    case False
    then show ?thesis
      by (subst add_contributions.simps) simp
  qed
qed

lemma length_value_loop: "length (value_loop i v rows) = length rows"
  by (induction rows arbitrary: i v) (auto simp: Let_def)

lemma length_cumsum: "length (cumsum a xs) = length xs"
  by (induction xs arbitrary: a) auto

text \<open>From the second pass on, every value is the one before, grown, plus the contribution.\<close>

lemma value_loop_Suc_nth:
  "k < length rows \<Longrightarrow>
   value_loop (Suc i) v rows ! k =
     (if k = 0 then v else value_loop (Suc i) v rows ! (k - 1)) * (1 + fst (rows ! k))
       + snd (rows ! k)"
proof (induction rows arbitrary: k v i)
  case Nil
  then show ?case by simp
next
  case (Cons row rows)
  obtain r c where row: "row = (r, c)" by (cases row)
  show ?case
  proof (cases k)
    case 0
    then show ?thesis by (simp add: row Let_def)
  next
    case (Suc j)
    with Cons.prems have j: "j < length rows" by simp
    from Cons.IH [OF j, of "Suc i" "v * (1 + r) + c"]
    show ?thesis
      by (cases j) (simp_all add: row Suc Let_def)
  qed
qed

lemma value_loop_0: "value_loop 0 v (row # rows) = v # value_loop (Suc 0) v rows"
  by (cases row) (simp add: Let_def)

lemma value_loop_recurrence:
  assumes "0 < k" "k < length rows"
  shows "value_loop 0 v rows ! k =
    value_loop 0 v rows ! (k - 1) * (1 + fst (rows ! k)) + snd (rows ! k)"
proof -
  from assms obtain row rest where rows: "rows = row # rest" by (cases rows) auto
  from assms obtain j where k: "k = Suc j" by (cases k) auto
  with assms rows have j: "j < length rest" by simp
  show ?thesis
    using value_loop_Suc_nth [OF j, of 0 v]
    by (cases j) (simp_all add: rows k value_loop_0)
qed

lemma nth_make_rows:
  "length rs = length ds \<Longrightarrow> length cs = length ds \<Longrightarrow> length ccs = length ds \<Longrightarrow>
   length vs = length ds \<Longrightarrow> i < length ds \<Longrightarrow>
   make_rows ds rs cs ccs vs ! i =
     \<lparr>idx = ds ! i, return = rs ! i, contribution = cs ! i, cumulative_contribution = ccs ! i,
      portfolio_value = vs ! i\<rparr>"
  by (simp add: make_rows_def)

text \<open>
  On a table with a row the function returns a table of as many rows, with the dates and
  returns of its input, whatever the two amounts are; the first value is the initial
  investment and every later value follows from the one before.
\<close>

lemma simulate_growth_trajectory:
  assumes "table \<noteq> []"
  shows "\<exists>inv. simulate_growth (Some table) initial_investment monthly_contribution = Inr (Some inv)
     \<and> map idx inv = map date table
     \<and> map return inv = map portfolio_return table
     \<and> portfolio_value (inv ! 0) = initial_investment
     \<and> (\<forall>i. 0 < i \<and> i < length inv \<longrightarrow>
           portfolio_value (inv ! i) =
             portfolio_value (inv ! (i - 1)) * (1 + return (inv ! i)) + contribution (inv ! i))"
proof -
  define index where "index = map date table"
  define returns where "returns = map portfolio_return table"
  define col0 where
    "col0 = (map (\<lambda>d. (d, 0::real)) index)[0 := (hd index, initial_investment)]"
  define col where "col = add_contributions (last index) monthly_contribution col0 (hd index)"
  define cs where "cs = map snd col"
  define vs where "vs = value_loop 0 initial_investment (zip returns cs)"
  define inv where "inv = make_rows index returns cs (cumsum 0 cs) vs"
  have n: "length index = length table" "length returns = length index"
    by (simp_all add: index_def returns_def)
  have "map fst col = map fst col0"
    by (simp add: col_def map_fst_add_contributions)
  then have "length col = length col0"
    by (rule map_eq_imp_length_eq)
  then have lcs: "length cs = length index"
    by (simp add: cs_def col0_def)
  have lvs: "length vs = length index"
    by (simp add: vs_def length_value_loop lcs n)
  have lcc: "length (cumsum 0 cs) = length index"
    by (simp add: length_cumsum lcs)
  have linv: "length inv = length index"
    by (simp add: inv_def make_rows_def n lcs lvs lcc)
  have row: "inv ! i = \<lparr>idx = index ! i, return = returns ! i, contribution = cs ! i,
      cumulative_contribution = cumsum 0 cs ! i, portfolio_value = vs ! i\<rparr>"
    if "i < length index" for i
    using that by (simp add: inv_def nth_make_rows n lcs lvs lcc)
  have ne: "index \<noteq> []"
    using assms by (simp add: index_def)
  have run: "simulate_growth (Some table) initial_investment monthly_contribution = Inr (Some inv)"
    using ne
    by (simp add: simulate_growth_def Let_def inv_def vs_def cs_def col_def col0_def
        index_def returns_def)
  have m1: "map idx inv = map date table"
    by (rule nth_equalityI) (simp_all add: linv n row index_def)
  have m2: "map return inv = map portfolio_return table"
    by (rule nth_equalityI) (simp_all add: linv n row returns_def index_def)
  have "zip returns cs \<noteq> []"
    using ne n lcs by (cases returns; cases cs) auto
  then obtain rc rest where z: "zip returns cs = rc # rest"
    by (cases "zip returns cs") auto
  have v0: "portfolio_value (inv ! 0) = initial_investment"
    using ne by (simp add: row vs_def z value_loop_0)
  have step: "portfolio_value (inv ! i) =
      portfolio_value (inv ! (i - 1)) * (1 + return (inv ! i)) + contribution (inv ! i)"
    if "0 < i" "i < length inv" for i
  proof -
    from that have i: "i < length index" "i - 1 < length index"
      by (simp_all add: linv)
    have "i < length (zip returns cs)"
      using i by (simp add: n lcs)
    from value_loop_recurrence [OF that(1) this, of initial_investment]
    show ?thesis
      using i by (simp add: row vs_def n lcs)
  qed
  from run m1 m2 v0 step show ?thesis
    by blast
qed

text \<open>
  C1. On every series with at least one row, \<open>simulate_growth\<close> returns a trajectory
  over the dates and returns of the series whose first portfolio value is the initial
  investment exactly, and whose value at every later row \<open>i\<close> is the value at row
  \<open>i - 1\<close> times one plus the return of row \<open>i\<close>, plus the contribution of row \<open>i\<close>: the
  contribution of a date is added after the return of that date has been applied.
\<close>

theorem simulate_growth_recurrence:
  assumes "table \<noteq> []"
  shows "\<exists>inv. simulate_growth (Some table) initial_investment monthly_contribution = Inr (Some inv)
     \<and> map idx inv = map date table
     \<and> map return inv = map portfolio_return table
     \<and> portfolio_value (inv ! 0) = initial_investment
     \<and> (\<forall>i. 0 < i \<and> i < length inv \<longrightarrow>
           portfolio_value (inv ! i) =
             portfolio_value (inv ! (i - 1)) * (1 + return (inv ! i)) + contribution (inv ! i))"
  using assms by (rule simulate_growth_trajectory)

theorem simulate_growth_recurrence_witness:
  "\<exists>inv. simulate_growth (Some three_days) 10000 500 = Inr (Some inv)
     \<and> portfolio_value (inv ! 0) = 10000
     \<and> portfolio_value (inv ! 2) =
         portfolio_value (inv ! 1) * (1 + return (inv ! 2)) + contribution (inv ! 2)"
proof -
  have "three_days \<noteq> []"
    by (simp add: three_days_def)
  from simulate_growth_recurrence [OF this, of 10000 500]
  obtain inv where run: "simulate_growth (Some three_days) 10000 500 = Inr (Some inv)"
    and dates: "map idx inv = map date three_days"
    and first: "portfolio_value (inv ! 0) = 10000"
    and step: "\<And>i. 0 < i \<and> i < length inv \<Longrightarrow>
       portfolio_value (inv ! i) =
         portfolio_value (inv ! (i - 1)) * (1 + return (inv ! i)) + contribution (inv ! i)"
    by auto
  from dates have "length inv = length three_days"
    by (rule map_eq_imp_length_eq)
  then have "0 < (2::nat) \<and> 2 < length inv"
    by (simp add: three_days_def)
  from step [OF this] have "portfolio_value (inv ! 2) =
      portfolio_value (inv ! 1) * (1 + return (inv ! 2)) + contribution (inv ! 2)"
    by simp
  with run first show ?thesis
    by (intro exI conjI)
qed

text \<open>
  On a table with no row the function returns nothing: the positional write of the
  initial investment into row 0 (line 47) raises \<^verbatim>\<open>IndexError\<close>. It returns \<^verbatim>\<open>None\<close>
  for an input that is \<^verbatim>\<open>None\<close>.
\<close>

lemma simulate_growth_empty_raises:
  "simulate_growth (Some []) initial_investment monthly_contribution = Inl IndexError
   \<and> simulate_growth None initial_investment monthly_contribution = Inr None"
  by (simp add: simulate_growth_def)

text \<open>The trajectory of the three trading days, row by row.\<close>

lemma simulate_growth_three_days:
  "simulate_growth (Some three_days) 10000 500 =
     Inr (Some
       [\<lparr>idx = Timestamp 2020 1 15, return = 0, contribution = 10000,
          cumulative_contribution = 10000, portfolio_value = 10000\<rparr>,
        \<lparr>idx = Timestamp 2020 2 14, return = 1 / 100, contribution = 500,
          cumulative_contribution = 10500, portfolio_value = 10600\<rparr>,
        \<lparr>idx = Timestamp 2020 2 18, return = - 1 / 100, contribution = 0,
          cumulative_contribution = 10500, portfolio_value = 10494\<rparr>])"
  by (simp add: three_days_def simulate_eval)

text \<open>
  C9. The function checks neither amount. With an initial investment that is not
  positive or a monthly contribution that is negative, on a series with a row, it
  returns a trajectory all the same: the first value is the initial investment and the
  recurrence of the compounding is applied to the amounts as they are.
\<close>

theorem simulate_growth_no_validation:
  assumes "table \<noteq> []" and "initial_investment \<le> 0 \<or> monthly_contribution < 0"
  shows "\<exists>inv. simulate_growth (Some table) initial_investment monthly_contribution = Inr (Some inv)
     \<and> length inv = length table
     \<and> portfolio_value (inv ! 0) = initial_investment
     \<and> (\<forall>i. 0 < i \<and> i < length inv \<longrightarrow>
           portfolio_value (inv ! i) =
             portfolio_value (inv ! (i - 1)) * (1 + return (inv ! i)) + contribution (inv ! i))"
proof -
  from simulate_growth_trajectory [OF assms(1), of initial_investment monthly_contribution]
  obtain inv where run:
    "simulate_growth (Some table) initial_investment monthly_contribution = Inr (Some inv)"
    and dates: "map idx inv = map date table"
    and rest: "portfolio_value (inv ! 0) = initial_investment"
    "\<forall>i. 0 < i \<and> i < length inv \<longrightarrow>
       portfolio_value (inv ! i) =
         portfolio_value (inv ! (i - 1)) * (1 + return (inv ! i)) + contribution (inv ! i)"
    by auto
  from dates have "length inv = length table"
    by (rule map_eq_imp_length_eq)
  with run rest show ?thesis
    by (intro exI conjI)
qed

theorem simulate_growth_no_validation_witness:
  "\<exists>inv. simulate_growth (Some three_days) (- 100) (- 5) = Inr (Some inv)
     \<and> length inv = 3 \<and> portfolio_value (inv ! 0) = - 100"
proof -
  have ne: "three_days \<noteq> []" and bad: "(- 100 :: real) \<le> 0 \<or> (- 5 :: real) < 0"
    by (simp_all add: three_days_def)
  from simulate_growth_no_validation [OF ne bad]
  obtain inv where "simulate_growth (Some three_days) (- 100) (- 5) = Inr (Some inv)"
    and "length inv = length three_days" and "portfolio_value (inv ! 0) = - 100"
    by auto
  moreover have "length three_days = 3"
    by (simp add: three_days_def)
  ultimately show ?thesis
    by (intro exI conjI) simp_all
qed

theorem simulate_growth_invalid_counterexample:
  "simulate_growth (Some three_days) (- 100) (- 5) =
     Inr (Some
       [\<lparr>idx = Timestamp 2020 1 15, return = 0, contribution = - 100,
          cumulative_contribution = - 100, portfolio_value = - 100\<rparr>,
        \<lparr>idx = Timestamp 2020 2 14, return = 1 / 100, contribution = - 5,
          cumulative_contribution = - 105, portfolio_value = - 106\<rparr>,
        \<lparr>idx = Timestamp 2020 2 18, return = - 1 / 100, contribution = 0,
          cumulative_contribution = - 105, portfolio_value = - 10494 / 100\<rparr>])"
  by (simp add: three_days_def simulate_eval)

text \<open>The loop over the months on the series of thirteen months, and the columns it gives.\<close>

lemma thirteen_col:
  "add_contributions (Timestamp 2021 1 15) 500
     ((map (\<lambda>d. (d, 0)) (map date thirteen_months))[0 := (Timestamp 2020 1 15, 10000)])
     (Timestamp 2020 1 15) =
   zip (map date thirteen_months) [10000, 500, 0, 500, 0, 500, 0, 500, 0, 500, 0, 500, 0]"
  by (simp add: thirteen_months_def flat_row_def add_contributions.simps contribute_def month_dates_def
  loc_set_def first_of_next_month_def Timestamp_def year_def month_def ts_le_def ts_lt_def
  add_month_def Let_def)

lemma thirteen_ends:
  "hd (map date thirteen_months) = Timestamp 2020 1 15"
  "last (map date thirteen_months) = Timestamp 2021 1 15"
  "map date thirteen_months \<noteq> []"
  by (simp_all add: thirteen_months_def flat_row_def)

lemma thirteen_snd:
  "map snd (zip (map date thirteen_months) [10000, 500, 0, 500, 0, 500, 0, 500, 0, 500, 0, 500, 0 :: real])
    = [10000, 500, 0, 500, 0, 500, 0, 500, 0, 500, 0, 500, 0]"
  by (simp add: thirteen_months_def)

lemma thirteen_run:
  "simulate_growth (Some thirteen_months) 10000 500 =
    Inr (Some (make_rows (map date thirteen_months) (map portfolio_return thirteen_months)
       [10000, 500, 0, 500, 0, 500, 0, 500, 0, 500, 0, 500, 0]
       (cumsum 0 [10000, 500, 0, 500, 0, 500, 0, 500, 0, 500, 0, 500, 0])
       (value_loop 0 10000 (zip (map portfolio_return thirteen_months)
          [10000, 500, 0, 500, 0, 500, 0, 500, 0, 500, 0, 500, 0]))))"
  unfolding simulate_growth_def Let_def
  by (simp only: option.case thirteen_ends if_False thirteen_col thirteen_snd)

lemma thirteen_cumsum:
  "cumsum 0 [10000, 500, 0, 500, 0, 500, 0, 500, 0, 500, 0, 500, 0] =
     [10000, 10500, 10500, 11000, 11000, 11500, 11500, 12000, 12000, 12500, 12500, 13000, 13000]"
  by simp

lemma thirteen_values:
  "value_loop 0 10000 (zip (map portfolio_return thirteen_months)
          [10000, 500, 0, 500, 0, 500, 0, 500, 0, 500, 0, 500, 0]) =
     [10000, 10500, 10500, 11000, 11000, 11500, 11500, 12000, 12000, 12500, 12500, 13000, 13000]"
  by (simp add: thirteen_months_def flat_row_def Let_def)

lemma map_contribution_make_rows:
  "length rs = length ds \<Longrightarrow> length cs = length ds \<Longrightarrow> length ccs = length ds \<Longrightarrow>
   length vs = length ds \<Longrightarrow> map contribution (make_rows ds rs cs ccs vs) = cs"
  by (rule nth_equalityI) (simp_all add: make_rows_def)

text \<open>
  C2. The series of thirteen months, an initial investment of 10000 and a monthly
  contribution of 500: the loop advances by two months in each pass (lines 55 to 59 move
  to the next month and line 72 moves once more), so the contribution is made in
  February, April, June, August, October and December only. There are six
  contributions, not twelve, and the contributed total ends at 13000, not 16000.
\<close>

theorem simulate_growth_thirteen_months:
  "\<exists>inv. simulate_growth (Some thirteen_months) 10000 500 = Inr (Some inv)
     \<and> map contribution inv = [10000, 500, 0, 500, 0, 500, 0, 500, 0, 500, 0, 500, 0]
     \<and> length (filter (\<lambda>c. c = 500) (map contribution inv)) = 6
     \<and> cumulative_contribution (last inv) = 13000"
proof -
  define inv where "inv = make_rows (map date thirteen_months) (map portfolio_return thirteen_months)
       [10000, 500, 0, 500, 0, 500, 0, 500, 0, 500, 0, 500, 0]
       [10000, 10500, 10500, 11000, 11000, 11500, 11500, 12000, 12000, 12500, 12500, 13000, 13000]
       [10000, 10500, 10500, 11000, 11000, 11500, 11500, 12000, 12000, 12500, 12500, 13000, 13000]"
  have n: "length thirteen_months = 13"
    by (simp add: thirteen_months_def)
  have run: "simulate_growth (Some thirteen_months) 10000 500 = Inr (Some inv)"
    by (simp only: thirteen_run thirteen_cumsum thirteen_values inv_def)
  have cs: "map contribution inv = [10000, 500, 0, 500, 0, 500, 0, 500, 0, 500, 0, 500, 0]"
    unfolding inv_def by (rule map_contribution_make_rows) (simp_all add: n)
  have six: "length (filter (\<lambda>c. c = 500) (map contribution inv)) = 6"
    by (simp add: cs)
  have len: "length inv = 13"
    by (simp add: inv_def make_rows_def n)
  then have "inv \<noteq> []"
    by auto
  then have "last inv = inv ! 12"
    by (simp add: last_conv_nth len)
  moreover have "cumulative_contribution (inv ! 12) = 13000"
    unfolding inv_def by (subst nth_make_rows) (simp_all add: n)
  ultimately have total: "cumulative_contribution (last inv) = 13000"
    by simp
  from run cs six total show ?thesis
    by (intro exI conjI)
qed

section \<open>Properties of the portfolio returns\<close>

lemmas aggregate_eval =
  get_portfolio_data_def get_ticker_data_for_period_def load_ticker_data_def
  weighted_column_def join_def finish_table_def row_sum_def pct_change_def
  portfolios_def file_mapping_def Timestamp_def ts_le_def ts_lt_def Let_def

text \<open>The Two-fund Portfolio on the two directories of the examples.\<close>

lemma two_fund_example:
  "get_portfolio_data portfolios file_mapping example_files ''Two-fund Portfolio'' None None =
     Some two_fund_table"
  by (simp add: example_files_def two_fund_table_def aggregate_eval)

lemma two_fund_bond_only:
  "get_portfolio_data portfolios file_mapping bond_files ''Two-fund Portfolio'' None None =
     Some bond_only_table"
  by (simp add: bond_files_def bond_only_table_def aggregate_eval)

lemma length_cumprod: "length (cumprod a xs) = length xs"
  by (induction xs arbitrary: a) auto

lemma cumprod_nth: "k < length xs \<Longrightarrow> cumprod a xs ! k = a * (\<Prod>i\<le>k. xs ! i)"
proof (induction xs arbitrary: a k)
  case Nil
  then show ?case by simp
next
  case (Cons x xs)
  show ?case
  proof (cases k)
    case 0
    then show ?thesis by simp
  next
    case (Suc j)
    with Cons.prems have "j < length xs" by simp
    from Cons.IH [OF this, of "a * x"] show ?thesis
      by (simp add: Suc prod.atMost_Suc_shift del: prod.atMost_Suc)
  qed
qed

lemma length_finish_table: "length (finish_table result) = length result"
  by (simp add: finish_table_def Let_def length_cumprod)

lemma finish_table_nth:
  assumes "k < length result"
  shows "finish_table result ! k =
    \<lparr>date = fst (result ! k), weighted = snd (result ! k),
     portfolio_return = row_sum (snd (result ! k)),
     cumulative_return = (\<Prod>i\<le>k. 1 + row_sum (snd (result ! i))) * 100\<rparr>"
proof -
  have "\<And>i. i \<le> k \<Longrightarrow> i < length result"
    using assms by simp
  then show ?thesis
    using assms
    by (simp add: finish_table_def Let_def length_cumprod cumprod_nth case_prod_unfold)
qed

lemma finish_table_cumulative:
  assumes "t < length (finish_table result)"
  shows "cumulative_return (finish_table result ! t) =
     100 * (\<Prod>t'\<le>t. 1 + portfolio_return (finish_table result ! t'))"
proof -
  from assms have t: "t < length result"
    by (simp add: length_finish_table)
  have "(\<Prod>t'\<le>t. 1 + portfolio_return (finish_table result ! t')) =
        (\<Prod>t'\<le>t. 1 + row_sum (snd (result ! t')))"
    using t by (intro prod.cong) (simp_all add: finish_table_nth)
  with t show ?thesis
    by (simp add: finish_table_nth)
qed

text \<open>
  C4. In every table \<open>get_portfolio_data\<close> returns, the cumulative return at every row
  \<open>t\<close> is 100 times the product of one plus the portfolio return over all rows up to and
  including \<open>t\<close>; the return of the first row is part of the first cumulative value.
\<close>

theorem cumulative_return_running_product:
  assumes "get_portfolio_data catalog mapping files portfolio_name start_date end_date = Some table"
    and "t < length table"
  shows "cumulative_return (table ! t) = 100 * (\<Prod>t'\<le>t. 1 + portfolio_return (table ! t'))"
proof -
  from assms(1) obtain result where "table = finish_table result"
    by (auto simp: get_portfolio_data_def split: option.splits)
  with assms(2) show ?thesis
    by (simp add: finish_table_cumulative)
qed

theorem cumulative_return_running_product_witness:
  "get_portfolio_data portfolios file_mapping example_files ''Two-fund Portfolio'' None None =
     Some two_fund_table
   \<and> 2 < length two_fund_table
   \<and> cumulative_return (two_fund_table ! 2) =
       100 * (\<Prod>t'\<le>2. 1 + portfolio_return (two_fund_table ! t'))
   \<and> cumulative_return (two_fund_table ! 2) = 1014048 / 10000"
proof -
  have "(2::nat) < length two_fund_table"
    by (simp add: two_fund_table_def)
  from cumulative_return_running_product [OF two_fund_example this] two_fund_example this
  show ?thesis
    by (simp add: two_fund_table_def)
qed




lemma vt_missing:
  "get_ticker_data_for_period file_mapping bond_files ''VT'' None None = None"
  by (simp add: bond_files_def get_ticker_data_for_period_def load_ticker_data_def file_mapping_def)

lemma bnd_there:
  "get_ticker_data_for_period file_mapping bond_files ''BND'' None None \<noteq> None"
  by (simp add: bond_files_def get_ticker_data_for_period_def load_ticker_data_def file_mapping_def)













text \<open>The join on a column whose dates are distinct, and the loop over the tickers with such columns.\<close>

lemma filter_distinct_key:
  "distinct (map fst col) \<Longrightarrow>
   filter (\<lambda>(d', v). d' = d) col = (case map_of col d of None \<Rightarrow> [] | Some v \<Rightarrow> [(d, v)])"
proof (induction col)
  case Nil
  then show ?case by simp
next
  case (Cons x col)
  obtain d' v where x: "x = (d', v)" by (cases x)
  show ?case
  proof (cases "d' = d")
    case True
    with Cons.prems have "d \<notin> fst ` set col"
      by (simp add: x)
    then have "map_of col d = None"
      by (simp add: map_of_eq_None_iff)
    with Cons True show ?thesis
      by (simp add: x)
  next
    case False
    with Cons show ?thesis
      by (simp add: x)
  qed
qed

lemma join_distinct:
  assumes "distinct (map fst col)"
  shows "join result col =
    map (\<lambda>(d, vs). (d, vs @ [case map_of col d of None \<Rightarrow> None | Some v \<Rightarrow> v])) result"
proof -
  have "(case filter (\<lambda>(d', v). d' = d) col of
           [] \<Rightarrow> [(d, vs @ [None])]
         | ms \<Rightarrow> map (\<lambda>(d', v). (d, vs @ [v])) ms) =
        [(d, vs @ [case map_of col d of None \<Rightarrow> None | Some v \<Rightarrow> v])]" for d vs
    by (simp add: filter_distinct_key [OF assms] split: option.splits)
  then show ?thesis
    by (induction result) (auto simp: join_def)
qed

lemma row_sum_snoc:
  "row_sum (vs @ [case map_of col d of None \<Rightarrow> None | Some v \<Rightarrow> v]) = row_sum vs + value_on d col"
  by (simp add: row_sum_def value_on_def split: option.splits)

lemma join_dates:
  "distinct (map fst col) \<Longrightarrow> map fst (join result col) = map fst result"
  by (simp add: join_distinct case_prod_unfold comp_def)

lemma join_row_sum:
  "distinct (map fst col) \<Longrightarrow>
   map (\<lambda>(d, vs). row_sum vs) (join result col) =
   map (\<lambda>(d, vs). row_sum vs + value_on d col) result"
  by (simp add: join_distinct case_prod_unfold comp_def row_sum_snoc)

lemma available_columns_Cons:
  "available_columns mapping files start_date end_date ((ticker, weight) # items) =
     (case get_ticker_data_for_period mapping files ticker start_date end_date of
        None \<Rightarrow> []
      | Some ticker_data \<Rightarrow> [weighted_column weight ticker_data])
     @ available_columns mapping files start_date end_date items"
  by (simp add: available_columns_def)

lemma join_tickers_from_Some:
  assumes "\<forall>col \<in> set (available_columns mapping files start_date end_date items).
             distinct (map fst col)"
  shows "\<exists>res'. join_tickers mapping files start_date end_date (Some res) items = Some res'
     \<and> map fst res' = map fst res
     \<and> map (\<lambda>(d, vs). row_sum vs) res' =
         map (\<lambda>(d, vs). row_sum vs +
                (\<Sum>col\<leftarrow>available_columns mapping files start_date end_date items. value_on d col))
             res"
  using assms
proof (induction items arbitrary: res)
  case Nil
  then show ?case
    by (simp add: available_columns_def)
next
  case (Cons item items)
  obtain ticker weight where item: "item = (ticker, weight)" by (cases item)
  show ?case
  proof (cases "get_ticker_data_for_period mapping files ticker start_date end_date")
    case None
    with Cons.prems have "\<forall>col \<in> set (available_columns mapping files start_date end_date items).
             distinct (map fst col)"
      by (simp add: item available_columns_Cons)
    from Cons.IH [OF this, of res] None show ?thesis
      by (simp add: item available_columns_Cons)
  next
    case (Some ticker_data)
    define col where "col = weighted_column weight ticker_data"
    from Cons.prems Some have d: "distinct (map fst col)"
      and rest: "\<forall>col \<in> set (available_columns mapping files start_date end_date items).
             distinct (map fst col)"
      by (simp_all add: item available_columns_Cons col_def)
    from Cons.IH [OF rest, of "join res col"]
    obtain res' where res':
      "join_tickers mapping files start_date end_date (Some (join res col)) items = Some res'"
      "map fst res' = map fst (join res col)"
      "map (\<lambda>(d, vs). row_sum vs) res' =
         map (\<lambda>(d, vs). row_sum vs +
                (\<Sum>col\<leftarrow>available_columns mapping files start_date end_date items. value_on d col))
             (join res col)"
      by auto
    have "join_tickers mapping files start_date end_date (Some res) (item # items) = Some res'"
      using Some res'(1) by (simp add: item col_def)
    moreover have "map fst res' = map fst res"
      using res'(2) d by (simp add: join_dates)
    moreover have "map (\<lambda>(d, vs). row_sum vs) res' =
         map (\<lambda>(d, vs). row_sum vs +
                (\<Sum>col\<leftarrow>available_columns mapping files start_date end_date (item # items).
                   value_on d col))
             res"
    proof -
      have "map (\<lambda>(d, vs). row_sum vs) res' =
         map (\<lambda>(d, vs). row_sum vs +
                (\<Sum>col\<leftarrow>available_columns mapping files start_date end_date items. value_on d col))
             (join res col)"
        by (rule res'(3))
      also have "\<dots> =
         map (\<lambda>(d, vs). row_sum vs + value_on d col +
                (\<Sum>col\<leftarrow>available_columns mapping files start_date end_date items. value_on d col))
             res"
        by (simp add: join_distinct [OF d] case_prod_unfold comp_def row_sum_snoc)
      also have "\<dots> =
         map (\<lambda>(d, vs). row_sum vs +
                (\<Sum>col\<leftarrow>available_columns mapping files start_date end_date (item # items).
                   value_on d col))
             res"
        using Some by (simp add: item available_columns_Cons col_def add.assoc)
      finally show ?thesis .
    qed
    ultimately show ?thesis
      by blast
  qed
qed

lemma row_sum_single:
  assumes "distinct (map fst col)" and "(d, v) \<in> set col"
  shows "row_sum [v] = value_on d col"
proof -
  from assms have "map_of col d = Some v"
    by simp
  then show ?thesis
    by (simp add: row_sum_def value_on_def split: option.splits)
qed

lemma join_tickers_from_None:
  assumes "available_columns mapping files start_date end_date items = first # rest"
    and "\<forall>col \<in> set (first # rest). distinct (map fst col)"
  shows "\<exists>res. join_tickers mapping files start_date end_date None items = Some res
     \<and> map fst res = map fst first
     \<and> map (\<lambda>(d, vs). row_sum vs) res =
         map (\<lambda>d. \<Sum>col\<leftarrow>first # rest. value_on d col) (map fst first)"
  using assms(1)
proof (induction items)
  case Nil
  then show ?case
    by (simp add: available_columns_def)
next
  case (Cons item items)
  obtain ticker weight where item: "item = (ticker, weight)" by (cases item)
  show ?case
  proof (cases "get_ticker_data_for_period mapping files ticker start_date end_date")
    case None
    with Cons.prems have "available_columns mapping files start_date end_date items = first # rest"
      by (simp add: item available_columns_Cons)
    from Cons.IH [OF this] None show ?thesis
      by (simp add: item)
  next
    case (Some ticker_data)
    with Cons.prems have first: "first = weighted_column weight ticker_data"
      and rest: "rest = available_columns mapping files start_date end_date items"
      by (simp_all add: item available_columns_Cons)
    from assms(2) have d: "distinct (map fst first)"
      and dr: "\<forall>col \<in> set (available_columns mapping files start_date end_date items).
             distinct (map fst col)"
      by (simp_all add: rest)
    define res0 where "res0 = map (\<lambda>(d, v). (d, [v])) first"
    from join_tickers_from_Some [OF dr, of res0]
    obtain res where res:
      "join_tickers mapping files start_date end_date (Some res0) items = Some res"
      "map fst res = map fst res0"
      "map (\<lambda>(d, vs). row_sum vs) res =
         map (\<lambda>(d, vs). row_sum vs + (\<Sum>col\<leftarrow>rest. value_on d col)) res0"
      by (auto simp: rest)
    have "join_tickers mapping files start_date end_date None (item # items) = Some res"
      using Some res(1) by (simp add: item res0_def first)
    moreover have "map fst res = map fst first"
      using res(2) by (simp add: res0_def case_prod_unfold comp_def)
    moreover have "map (\<lambda>(d, vs). row_sum vs) res =
         map (\<lambda>d. \<Sum>col\<leftarrow>first # rest. value_on d col) (map fst first)"
    proof -
      have "map (\<lambda>(d, vs). row_sum vs) res =
         map (\<lambda>(d, vs). row_sum vs + (\<Sum>col\<leftarrow>rest. value_on d col)) res0"
        by (rule res(3))
      also have "\<dots> = map (\<lambda>(d, v). row_sum [v] + (\<Sum>col\<leftarrow>rest. value_on d col)) first"
        by (simp add: res0_def case_prod_unfold comp_def)
      also have "\<dots> = map (\<lambda>(d, v). value_on d first + (\<Sum>col\<leftarrow>rest. value_on d col)) first"
        by (rule map_cong) (auto simp: row_sum_single [OF d])
      also have "\<dots> = map (\<lambda>d. \<Sum>col\<leftarrow>first # rest. value_on d col) (map fst first)"
        by (simp add: case_prod_unfold comp_def)
      finally show ?thesis .
    qed
    ultimately show ?thesis
      by blast
  qed
qed

lemma map_date_finish_table: "map date (finish_table result) = map fst result"
  by (rule nth_equalityI) (simp_all add: length_finish_table finish_table_nth)

lemma map_portfolio_return_finish_table:
  "map portfolio_return (finish_table result) = map (\<lambda>(d, vs). row_sum vs) result"
  by (rule nth_equalityI)
    (simp_all add: length_finish_table finish_table_nth case_prod_unfold)

lemma example_columns:
  "available_columns file_mapping example_files None None [(''VT'', 60 / 100), (''BND'', 40 / 100)] =
     [[(Timestamp 2020 1 2, None), (Timestamp 2020 1 3, Some (6 / 1000)),
       (Timestamp 2020 1 6, Some (12 / 1000))],
      [(Timestamp 2020 1 2, None), (Timestamp 2020 1 3, Some 0),
       (Timestamp 2020 1 6, Some (- 4 / 1000)), (Timestamp 2020 1 7, Some 0)]]"
  by (simp add: available_columns_def example_files_def get_ticker_data_for_period_def
      load_ticker_data_def weighted_column_def pct_change_def file_mapping_def Timestamp_def
      ts_le_def ts_lt_def Let_def)

text \<open>
  C3. The join is the left join of pandas, not a union. When the dates of every ticker
  with data are distinct, the rows of the table are the dates of the first such ticker
  of the portfolio, in its range; a date that only a later ticker has is dropped. The
  portfolio return of a row is the sum over the tickers with data of the weighted
  return on the date of the row, where a ticker with no row of that date, or with NaN
  there, gives 0.
\<close>

theorem rows_of_first_available_ticker:
  assumes "map_of catalog portfolio_name = Some portfolio"
    and "available_columns mapping files start_date end_date portfolio = first # rest"
    and "\<forall>col \<in> set (first # rest). distinct (map fst col)"
  shows "\<exists>table. get_portfolio_data catalog mapping files portfolio_name start_date end_date = Some table
     \<and> map date table = map fst first
     \<and> map portfolio_return table =
         map (\<lambda>d. \<Sum>col\<leftarrow>first # rest. value_on d col) (map fst first)"
proof -
  from join_tickers_from_None [OF assms(2,3)]
  obtain res where res: "join_tickers mapping files start_date end_date None portfolio = Some res"
    "map fst res = map fst first"
    "map (\<lambda>(d, vs). row_sum vs) res =
       map (\<lambda>d. \<Sum>col\<leftarrow>first # rest. value_on d col) (map fst first)"
    by blast
  have "get_portfolio_data catalog mapping files portfolio_name start_date end_date =
      Some (finish_table res)"
    using assms(1) res(1) by (simp add: get_portfolio_data_def)
  moreover have "map date (finish_table res) = map fst first"
    by (simp add: map_date_finish_table res(2))
  moreover have "map portfolio_return (finish_table res) =
      map (\<lambda>d. \<Sum>col\<leftarrow>first # rest. value_on d col) (map fst first)"
    by (simp add: map_portfolio_return_finish_table res(3))
  ultimately show ?thesis
    by blast
qed

theorem rows_of_first_available_ticker_witness:
  "get_portfolio_data portfolios file_mapping example_files ''Two-fund Portfolio'' None None =
     Some two_fund_table
   \<and> map date two_fund_table = [Timestamp 2020 1 2, Timestamp 2020 1 3, Timestamp 2020 1 6]
   \<and> map portfolio_return two_fund_table = [0, 6 / 1000, 8 / 1000]"
proof -
  have p: "map_of portfolios ''Two-fund Portfolio'' = Some [(''VT'', 60 / 100), (''BND'', 40 / 100)]"
    by (simp add: portfolios_def)
  have d: "\<forall>col \<in> set
     [[(Timestamp 2020 1 2, None), (Timestamp 2020 1 3, Some (6 / 1000)),
       (Timestamp 2020 1 6, Some (12 / 1000))],
      [(Timestamp 2020 1 2, None), (Timestamp 2020 1 3, Some 0),
       (Timestamp 2020 1 6, Some (- 4 / 1000 :: real)), (Timestamp 2020 1 7, Some 0)]].
     distinct (map fst col)"
    by (simp add: Timestamp_def)
  from rows_of_first_available_ticker [OF p example_columns d]
  obtain table where
    "get_portfolio_data portfolios file_mapping example_files ''Two-fund Portfolio'' None None =
       Some table"
    "map date table = [Timestamp 2020 1 2, Timestamp 2020 1 3, Timestamp 2020 1 6]"
    "map portfolio_return table = [0, 6 / 1000, 8 / 1000]"
    by (auto simp: value_on_def Timestamp_def)
  with two_fund_example show ?thesis
    by simp
qed

theorem join_drops_dates_counterexample:
  "(\<exists>ticker_data.
      get_ticker_data_for_period file_mapping example_files ''BND'' None None = Some ticker_data
      \<and> Timestamp 2020 1 7 \<in> set (map tdate ticker_data))
   \<and> (\<exists>table.
      get_portfolio_data portfolios file_mapping example_files ''Two-fund Portfolio'' None None =
        Some table
      \<and> Timestamp 2020 1 7 \<notin> set (map date table))"
proof
  show "\<exists>ticker_data.
      get_ticker_data_for_period file_mapping example_files ''BND'' None None = Some ticker_data
      \<and> Timestamp 2020 1 7 \<in> set (map tdate ticker_data)"
    by (simp add: example_files_def get_ticker_data_for_period_def load_ticker_data_def
        pct_change_def file_mapping_def Timestamp_def ts_le_def ts_lt_def Let_def)
  show "\<exists>table.
      get_portfolio_data portfolios file_mapping example_files ''Two-fund Portfolio'' None None =
        Some table
      \<and> Timestamp 2020 1 7 \<notin> set (map date table)"
    by (simp add: two_fund_example two_fund_table_def Timestamp_def)
qed

section \<open>Properties of the statistics\<close>

lemma two_fund_one_day:
  "get_portfolio_data portfolios file_mapping example_files ''Two-fund Portfolio''
     (Some (Timestamp 2020 1 6)) (Some (Timestamp 2020 4 30)) = Some one_day_table"
  by (simp add: example_files_def one_day_table_def aggregate_eval)

lemma two_fund_mean: "mean (map portfolio_return two_fund_table) = Some (7 / 1500)"
  by (simp add: mean_def two_fund_table_def)

lemma two_fund_std:
  "\<exists>s. std (map portfolio_return two_fund_table) = Some s \<and> 0 < s"
  by (simp add: std_def two_fund_table_def power2_eq_square)

text \<open>
  C5. On every series with a return, the mean is a number and the annual return is one
  plus the mean to the power 252, minus one. On a series of two returns or more the
  standard deviation of the sample is a number, the annual risk is this standard
  deviation times the square root of 252, and the ratio is the quotient of annual return
  and annual risk when the annual risk is not 0 and 0 when it is. On a series of one
  return the standard deviation of the sample is NaN, and so are the annual risk and
  the ratio.
\<close>

theorem statistics_formulas:
  assumes "portfolio_data \<noteq> []"
  shows "\<exists>m. mean (map portfolio_return portfolio_data) = Some m
     \<and> annual_return (compute_stats portfolio_data) = Some ((1 + m) ^ 252 - 1)
     \<and> (2 \<le> length portfolio_data \<longrightarrow>
          (\<exists>s. std (map portfolio_return portfolio_data) = Some s
             \<and> annual_risk (compute_stats portfolio_data) = Some (s * sqrt 252)
             \<and> sharpe (compute_stats portfolio_data) =
                 Some (if s * sqrt 252 \<noteq> 0 then ((1 + m) ^ 252 - 1) / (s * sqrt 252) else 0)))
     \<and> (length portfolio_data = 1 \<longrightarrow>
          std (map portfolio_return portfolio_data) = None
          \<and> annual_risk (compute_stats portfolio_data) = None
          \<and> sharpe (compute_stats portfolio_data) = None)"
proof -
  define returns where "returns = map portfolio_return portfolio_data"
  have len: "length returns = length portfolio_data"
    by (simp add: returns_def)
  from assms have "returns \<noteq> []"
    by (simp add: returns_def)
  then obtain m where m: "mean returns = Some m"
    by (simp add: mean_def)
  have ar: "annual_return (compute_stats portfolio_data) = Some ((1 + m) ^ 252 - 1)"
    using m by (simp add: compute_stats_def Let_def returns_def)
  have two: "\<exists>s. std returns = Some s
       \<and> annual_risk (compute_stats portfolio_data) = Some (s * sqrt 252)
       \<and> sharpe (compute_stats portfolio_data) =
           Some (if s * sqrt 252 \<noteq> 0 then ((1 + m) ^ 252 - 1) / (s * sqrt 252) else 0)"
    if "2 \<le> length portfolio_data"
  proof -
    from that have "\<not> length returns < 2"
      by (simp add: len)
    then obtain s where s: "std returns = Some s"
      by (simp add: std_def Let_def)
    with m show ?thesis
      by (simp add: compute_stats_def Let_def sharpe_ratio_def returns_def)
  qed
  have one: "std returns = None \<and> annual_risk (compute_stats portfolio_data) = None
       \<and> sharpe (compute_stats portfolio_data) = None"
    if "length portfolio_data = 1"
  proof -
    from that have s: "std returns = None"
      by (simp add: std_def len)
    with m show ?thesis
      by (simp add: compute_stats_def Let_def sharpe_ratio_def returns_def)
  qed
  from m ar two one show ?thesis
    unfolding returns_def by blast
qed

theorem statistics_formulas_witness:
  "two_fund_table \<noteq> [] \<and> 2 \<le> length two_fund_table \<and> length one_day_table = 1
   \<and> (\<exists>s. std (map portfolio_return two_fund_table) = Some s \<and> 0 < s
        \<and> annual_return (compute_stats two_fund_table) = Some ((1 + 7 / 1500) ^ 252 - 1)
        \<and> annual_risk (compute_stats two_fund_table) = Some (s * sqrt 252)
        \<and> sharpe (compute_stats two_fund_table) =
            Some (((1 + 7 / 1500) ^ 252 - 1) / (s * sqrt 252)))
   \<and> annual_return (compute_stats one_day_table) = Some ((1 + 8 / 1000) ^ 252 - 1)
   \<and> annual_risk (compute_stats one_day_table) = None
   \<and> sharpe (compute_stats one_day_table) = None"
proof -
  have ne: "two_fund_table \<noteq> []" and n2: "2 \<le> length two_fund_table"
    by (simp_all add: two_fund_table_def)
  have ne1: "one_day_table \<noteq> []" and n1: "length one_day_table = 1"
    by (simp_all add: one_day_table_def)
  from statistics_formulas [OF ne]
  obtain m where m: "mean (map portfolio_return two_fund_table) = Some m"
    and ar: "annual_return (compute_stats two_fund_table) = Some ((1 + m) ^ 252 - 1)"
    and two: "2 \<le> length two_fund_table \<longrightarrow>
          (\<exists>s. std (map portfolio_return two_fund_table) = Some s
             \<and> annual_risk (compute_stats two_fund_table) = Some (s * sqrt 252)
             \<and> sharpe (compute_stats two_fund_table) =
                 Some (if s * sqrt 252 \<noteq> 0 then ((1 + m) ^ 252 - 1) / (s * sqrt 252) else 0))"
    by blast
  from m have meq: "m = 7 / 1500"
    by (simp only: two_fund_mean option.inject)
  from two n2
  obtain s where s: "std (map portfolio_return two_fund_table) = Some s"
    and risk: "annual_risk (compute_stats two_fund_table) = Some (s * sqrt 252)"
    and sh: "sharpe (compute_stats two_fund_table) =
       Some (if s * sqrt 252 \<noteq> 0 then ((1 + m) ^ 252 - 1) / (s * sqrt 252) else 0)"
    by blast
  from two_fund_std s have pos: "0 < s"
    by auto
  then have "s * sqrt 252 \<noteq> 0"
    by simp
  with sh have sh': "sharpe (compute_stats two_fund_table) =
       Some (((1 + m) ^ 252 - 1) / (s * sqrt 252))"
    by (simp only: if_True if_False not_False_eq_True simp_thms)
  from statistics_formulas [OF ne1]
  obtain m' where m': "mean (map portfolio_return one_day_table) = Some m'"
    and ar1: "annual_return (compute_stats one_day_table) = Some ((1 + m') ^ 252 - 1)"
    and one: "length one_day_table = 1 \<longrightarrow>
          std (map portfolio_return one_day_table) = None
          \<and> annual_risk (compute_stats one_day_table) = None
          \<and> sharpe (compute_stats one_day_table) = None"
    by blast
  have "mean (map portfolio_return one_day_table) = Some (8 / 1000)"
    by (simp add: mean_def one_day_table_def)
  with m' have meq': "m' = 8 / 1000"
    by (simp only: option.inject)
  from one n1 have nan: "annual_risk (compute_stats one_day_table) = None"
    "sharpe (compute_stats one_day_table) = None"
    by blast+
  from ne n2 n1 s pos ar [unfolded meq] risk sh' [unfolded meq] ar1 [unfolded meq'] nan
  show ?thesis
    by (intro conjI exI)
qed

theorem sharpe_nan_counterexample:
  "get_portfolio_data portfolios file_mapping example_files ''Two-fund Portfolio''
     (Some (Timestamp 2020 1 6)) (Some (Timestamp 2020 4 30)) = Some one_day_table
   \<and> one_day_table \<noteq> []
   \<and> annual_risk (compute_stats one_day_table) = None
   \<and> sharpe (compute_stats one_day_table) = None"
  by (simp add: two_fund_one_day)
    (simp add: one_day_table_def compute_stats_def std_def mean_def sharpe_ratio_def Let_def)

text \<open>The running maximum: it is above the column and positive, and it is the column exactly when the column is sorted.\<close>

lemma length_cummax_from: "length (cummax_from m xs) = length xs"
  by (induction xs arbitrary: m) auto

lemma length_cummax: "length (cummax xs) = length xs"
  by (simp add: cummax_def length_cummax_from split: list.splits)

lemma cummax_from_bounds:
  "0 < m \<Longrightarrow> list_all2 (\<lambda>c M. c \<le> M \<and> 0 < M) xs (cummax_from m xs)"
proof (induction xs arbitrary: m)
  case Nil
  then show ?case by simp
next
  case (Cons x xs)
  from Cons.prems have "0 < max m x" by simp
  from Cons.IH [OF this] Cons.prems show ?case
    by simp
qed

lemma cummax_bounds:
  assumes "\<forall>c \<in> set xs. 0 < c"
  shows "list_all2 (\<lambda>c M. c \<le> M \<and> 0 < M) xs (cummax xs)"
proof (cases xs)
  case Nil
  then show ?thesis by (simp add: cummax_def)
next
  case (Cons x rest)
  with assms have "0 < x" by simp
  from cummax_from_bounds [OF this, of rest] \<open>0 < x\<close> show ?thesis
    by (simp add: cummax_def Cons)
qed

lemma cummax_from_eq_iff: "cummax_from m xs = xs \<longleftrightarrow> sorted (m # xs)"
proof (induction xs arbitrary: m)
  case Nil
  then show ?case by simp
next
  case (Cons x xs)
  show ?case
  proof (cases "m \<le> x")
    case True
    then have "max m x = x" by simp
    with Cons.IH [of x] True show ?thesis
      by fastforce
  next
    case False
    then have "max m x \<noteq> x" by simp
    with False show ?thesis by auto
  qed
qed

lemma cummax_eq_iff: "cummax xs = xs \<longleftrightarrow> sorted xs"
  by (cases xs) (simp_all add: cummax_def cummax_from_eq_iff)

lemma min_col_Min:
  assumes "xs \<noteq> []"
  shows "min_col xs = Some (Min (set xs))"
proof -
  from assms obtain x rest where xs: "xs = x # rest"
    by (cases xs) auto
  have "fold min rest x = Min (set (x # rest))"
    by (rule Min.set_eq_fold [symmetric])
  then show ?thesis
    by (simp add: min_col_def xs)
qed

lemma drawdown_properties:
  assumes ne: "cumulative \<noteq> []" and pos: "\<forall>c \<in> set cumulative. 0 < c"
  shows "\<exists>m. drawdown cumulative = Some m \<and> m \<le> 0 \<and> (m = 0 \<longleftrightarrow> sorted cumulative)"
proof -
  define peaks where "peaks = cummax cumulative"
  define ds where "ds = map (\<lambda>(c, m). c / m - 1) (zip cumulative peaks)"
  have len: "length peaks = length cumulative"
    by (simp add: peaks_def length_cummax)
  have lds: "length ds = length cumulative"
    by (simp add: ds_def len)
  have nth: "ds ! i = cumulative ! i / peaks ! i - 1" if "i < length cumulative" for i
    using that by (simp add: ds_def len)
  have bound: "cumulative ! i \<le> peaks ! i \<and> 0 < peaks ! i" if "i < length cumulative" for i
    using cummax_bounds [OF pos] that by (simp add: peaks_def list_all2_conv_all_nth)
  have le0: "d \<le> 0" if "d \<in> set ds" for d
  proof -
    from that obtain i where i: "i < length cumulative" "d = ds ! i"
      by (auto simp: in_set_conv_nth lds)
    from bound [OF i(1)] have "cumulative ! i / peaks ! i \<le> 1"
      by simp
    with i show ?thesis
      by (simp add: nth)
  qed
  have dne: "ds \<noteq> []"
    using ne lds by auto
  then have run: "drawdown cumulative = Some (Min (set ds))"
    by (simp add: drawdown_def ds_def peaks_def min_col_Min)
  have fin: "finite (set ds)" "set ds \<noteq> {}"
    using dne by simp_all
  have min_in: "Min (set ds) \<in> set ds"
    using fin by (rule Min_in)
  then have nonpos: "Min (set ds) \<le> 0"
    by (rule le0)
  have iff: "Min (set ds) = 0 \<longleftrightarrow> sorted cumulative"
  proof
    assume zero: "Min (set ds) = 0"
    have "peaks ! i = cumulative ! i" if "i < length cumulative" for i
    proof -
      from that have "ds ! i \<in> set ds"
        by (simp add: lds)
      then have "0 \<le> ds ! i" "ds ! i \<le> 0"
        using Min_le [OF fin(1), of "ds ! i"] zero le0 by simp_all
      then have "cumulative ! i / peaks ! i = 1"
        using that by (simp add: nth)
      with bound [OF that] show ?thesis
        by simp
    qed
    then have "peaks = cumulative"
      by (intro nth_equalityI) (simp_all add: len)
    then show "sorted cumulative"
      by (simp add: peaks_def cummax_eq_iff)
  next
    assume "sorted cumulative"
    then have same: "peaks = cumulative"
      by (simp add: peaks_def cummax_eq_iff)
    from min_in obtain i where i: "i < length cumulative" "Min (set ds) = ds ! i"
      by (auto simp: in_set_conv_nth lds)
    from bound [OF i(1)] have "cumulative ! i / peaks ! i = 1"
      by (simp add: same)
    with i show "Min (set ds) = 0"
      by (simp add: nth)
  qed
  from run nonpos iff show ?thesis
    by blast
qed

lemma bond_only_drawdown:
  "max_drawdown (compute_stats bond_only_table) = Some (- 4 / 1000)"
  by (simp add: compute_stats_def drawdown_def cummax_def min_col_def bond_only_table_def Let_def)

text \<open>
  C6. On a table with a row whose cumulative returns are all positive, the maximum
  drawdown is a number, it is at most 0, and it is 0 if and only if the cumulative
  returns never decrease from a row to the next.
\<close>

theorem max_drawdown_nonpositive:
  assumes "portfolio_data \<noteq> []"
    and "\<forall>row \<in> set portfolio_data. 0 < cumulative_return row"
  shows "\<exists>m. max_drawdown (compute_stats portfolio_data) = Some m \<and> m \<le> 0
     \<and> (m = 0 \<longleftrightarrow> sorted (map cumulative_return portfolio_data))"
proof -
  have "map cumulative_return portfolio_data \<noteq> []"
    using assms(1) by simp
  moreover have "\<forall>c \<in> set (map cumulative_return portfolio_data). 0 < c"
    using assms(2) by simp
  ultimately have "\<exists>m. drawdown (map cumulative_return portfolio_data) = Some m \<and> m \<le> 0
     \<and> (m = 0 \<longleftrightarrow> sorted (map cumulative_return portfolio_data))"
    by (rule drawdown_properties)
  then show ?thesis
    by (simp add: compute_stats_def Let_def)
qed

theorem max_drawdown_nonpositive_witness:
  "bond_only_table \<noteq> []
   \<and> max_drawdown (compute_stats bond_only_table) = Some (- 4 / 1000)
   \<and> \<not> sorted (map cumulative_return bond_only_table)"
proof -
  have ne: "bond_only_table \<noteq> []"
    and pos: "\<forall>row \<in> set bond_only_table. 0 < cumulative_return row"
    by (simp_all add: bond_only_table_def)
  from max_drawdown_nonpositive [OF ne pos]
  obtain m where m: "max_drawdown (compute_stats bond_only_table) = Some m"
    "m = 0 \<longleftrightarrow> sorted (map cumulative_return bond_only_table)"
    by blast
  from m(1) have "m = - 4 / 1000"
    by (simp add: bond_only_drawdown)
  with m ne show ?thesis
    by simp
qed

section \<open>Properties of the catalog\<close>

text \<open>
  A sum weighted by weights that are not negative lies between the bounds of its terms,
  scaled by the sum of the weights.
\<close>

lemma weighted_sum_bounds:
  fixes portfolio :: "(string \<times> real) list" and r :: "string \<Rightarrow> real"
  assumes "\<forall>(ticker, weight) \<in> set portfolio. 0 \<le> weight"
    and "\<forall>(ticker, weight) \<in> set portfolio. lo \<le> r ticker \<and> r ticker \<le> hi"
  shows "lo * sum_list (map snd portfolio) \<le> (\<Sum>(ticker, weight)\<leftarrow>portfolio. weight * r ticker)
     \<and> (\<Sum>(ticker, weight)\<leftarrow>portfolio. weight * r ticker) \<le> hi * sum_list (map snd portfolio)"
  using assms
proof (induction portfolio)
  case Nil
  then show ?case by simp
next
  case (Cons item portfolio)
  obtain ticker weight where item: "item = (ticker, weight)" by (cases item)
  from Cons.prems have w: "0 \<le> weight" and r: "lo \<le> r ticker" "r ticker \<le> hi"
    by (simp_all add: item)
  from w r have "weight * lo \<le> weight * r ticker" "weight * r ticker \<le> weight * hi"
    by (simp_all add: mult_left_mono)
  then have "lo * weight \<le> weight * r ticker" "weight * r ticker \<le> hi * weight"
    by (simp_all add: mult.commute)
  moreover from Cons have
    "lo * sum_list (map snd portfolio) \<le> (\<Sum>(ticker, weight)\<leftarrow>portfolio. weight * r ticker)
     \<and> (\<Sum>(ticker, weight)\<leftarrow>portfolio. weight * r ticker) \<le> hi * sum_list (map snd portfolio)"
    by simp
  ultimately show ?case
    by (simp add: item distrib_left)
qed

lemma catalog_weights:
  assumes "(name, portfolio) \<in> set portfolios"
  shows "(\<forall>(ticker, weight) \<in> set portfolio. 0 < weight) \<and> sum_list (map snd portfolio) = 1"
  using assms by (auto simp: portfolios_def)

text \<open>
  When every ticker of a portfolio has a return on the date of a row, the portfolio
  return of the row is the sum of these returns, each times its weight.
\<close>

lemma value_on_weighted_column:
  assumes "distinct (map tdate td)" and "row \<in> set td"
    and "tdate row = d" and "daily_return row = Some x"
  shows "value_on d (weighted_column weight td) = weight * x"
proof -
  have "map fst (weighted_column weight td) = map tdate td"
    by (simp add: weighted_column_def comp_def)
  with assms(1) have "distinct (map fst (weighted_column weight td))"
    by simp
  moreover from assms(2-4) have "(d, Some (x * weight)) \<in> set (weighted_column weight td)"
    by (force simp: weighted_column_def)
  ultimately have "map_of (weighted_column weight td) d = Some (Some (x * weight))"
    by (rule map_of_is_SomeI)
  then show ?thesis
    by (simp add: value_on_def mult.commute)
qed

lemma all_available_columns:
  assumes "\<forall>(ticker, weight) \<in> set portfolio.
      \<exists>td. get_ticker_data_for_period mapping files ticker start_date end_date = Some td
        \<and> distinct (map tdate td)
        \<and> (\<exists>row \<in> set td. tdate row = d \<and> daily_return row = Some (r ticker))"
  shows "(\<Sum>col\<leftarrow>available_columns mapping files start_date end_date portfolio. value_on d col) =
      (\<Sum>(ticker, weight)\<leftarrow>portfolio. weight * r ticker)
    \<and> (\<forall>col \<in> set (available_columns mapping files start_date end_date portfolio).
          distinct (map fst col))
    \<and> length (available_columns mapping files start_date end_date portfolio) = length portfolio"
  using assms
proof (induction portfolio)
  case Nil
  then show ?case
    by (simp add: available_columns_def)
next
  case (Cons item portfolio)
  obtain ticker weight where item: "item = (ticker, weight)" by (cases item)
  from Cons.prems obtain td row
    where td: "get_ticker_data_for_period mapping files ticker start_date end_date = Some td"
      and d: "distinct (map tdate td)"
      and row: "row \<in> set td" "tdate row = d" "daily_return row = Some (r ticker)"
    by (auto simp: item)
  from Cons.prems have "\<forall>(ticker, weight) \<in> set portfolio.
      \<exists>td. get_ticker_data_for_period mapping files ticker start_date end_date = Some td
        \<and> distinct (map tdate td)
        \<and> (\<exists>row \<in> set td. tdate row = d \<and> daily_return row = Some (r ticker))"
    by simp
  from Cons.IH [OF this]
  have ih: "(\<Sum>col\<leftarrow>available_columns mapping files start_date end_date portfolio. value_on d col) =
      (\<Sum>(ticker, weight)\<leftarrow>portfolio. weight * r ticker)"
    "\<forall>col \<in> set (available_columns mapping files start_date end_date portfolio).
          distinct (map fst col)"
    "length (available_columns mapping files start_date end_date portfolio) = length portfolio"
    by simp_all
  have v: "value_on d (weighted_column weight td) = weight * r ticker"
    using d row by (rule value_on_weighted_column)
  have dc: "distinct (map fst (weighted_column weight td))"
    using d by (simp add: weighted_column_def comp_def)
  from ih v dc td show ?case
    by (simp add: item available_columns_Cons)
qed

lemma portfolio_return_weighted_sum:
  assumes cat: "map_of catalog portfolio_name = Some portfolio" and ne: "portfolio \<noteq> []"
    and run: "get_portfolio_data catalog mapping files portfolio_name start_date end_date = Some table"
    and i: "i < length table"
    and data: "\<forall>(ticker, weight) \<in> set portfolio.
      \<exists>td. get_ticker_data_for_period mapping files ticker start_date end_date = Some td
        \<and> distinct (map tdate td)
        \<and> (\<exists>row \<in> set td. tdate row = date (table ! i) \<and> daily_return row = Some (r ticker))"
  shows "portfolio_return (table ! i) = (\<Sum>(ticker, weight)\<leftarrow>portfolio. weight * r ticker)"
proof -
  define cols where "cols = available_columns mapping files start_date end_date portfolio"
  from all_available_columns [OF data]
  have sum: "(\<Sum>col\<leftarrow>cols. value_on (date (table ! i)) col) =
      (\<Sum>(ticker, weight)\<leftarrow>portfolio. weight * r ticker)"
    and dist: "\<forall>col \<in> set cols. distinct (map fst col)"
    and len: "length cols = length portfolio"
    by (simp_all add: cols_def)
  from len ne obtain first rest where fr: "cols = first # rest"
    by (cases cols) auto
  from join_tickers_from_None [of mapping files start_date end_date portfolio first rest]
    fr dist
  obtain res where res: "join_tickers mapping files start_date end_date None portfolio = Some res"
    and dates: "map fst res = map fst first"
    and sums: "map (\<lambda>(d, vs). row_sum vs) res =
         map (\<lambda>d. \<Sum>col\<leftarrow>first # rest. value_on d col) (map fst first)"
    by (auto simp: cols_def)
  from run cat res have table: "table = finish_table res"
    by (simp add: get_portfolio_data_def)
  with i have ir: "i < length res"
    by (simp add: length_finish_table)
  have "map (\<lambda>(d, vs). row_sum vs) res = map (\<lambda>d. \<Sum>col\<leftarrow>cols. value_on d col) (map fst res)"
    by (simp only: sums dates fr)
  then have "map (\<lambda>(d, vs). row_sum vs) res ! i =
      map (\<lambda>d. \<Sum>col\<leftarrow>cols. value_on d col) (map fst res) ! i"
    by (rule arg_cong)
  with ir have "row_sum (snd (res ! i)) = (\<Sum>col\<leftarrow>cols. value_on (fst (res ! i)) col)"
    by (simp add: case_prod_unfold)
  with ir sum show ?thesis
    by (simp add: table finish_table_nth)
qed

lemma catalog_lookup:
  assumes "(name, portfolio) \<in> set portfolios"
  shows "map_of portfolios name = Some portfolio \<and> portfolio \<noteq> []"
proof -
  have "distinct (map fst portfolios)"
    by (simp add: portfolios_def)
  then have "map_of portfolios name = Some portfolio"
    using assms by (rule map_of_is_SomeI)
  moreover from assms have "portfolio \<noteq> []"
    by (auto simp: portfolios_def)
  ultimately show ?thesis
    by simp
qed

lemma example_ticker_data:
  "get_ticker_data_for_period file_mapping example_files ''VT'' None None =
     Some [\<lparr>tdate = Timestamp 2020 1 2, close = 100, daily_return = None\<rparr>,
           \<lparr>tdate = Timestamp 2020 1 3, close = 101, daily_return = Some (1 / 100)\<rparr>,
           \<lparr>tdate = Timestamp 2020 1 6, close = 10302 / 100, daily_return = Some (2 / 100)\<rparr>]"
  "get_ticker_data_for_period file_mapping example_files ''BND'' None None =
     Some [\<lparr>tdate = Timestamp 2020 1 2, close = 50, daily_return = None\<rparr>,
           \<lparr>tdate = Timestamp 2020 1 3, close = 50, daily_return = Some 0\<rparr>,
           \<lparr>tdate = Timestamp 2020 1 6, close = 495 / 10, daily_return = Some (- 1 / 100)\<rparr>,
           \<lparr>tdate = Timestamp 2020 1 7, close = 495 / 10, daily_return = Some 0\<rparr>]"
  by (simp_all add: example_files_def get_ticker_data_for_period_def load_ticker_data_def
      pct_change_def file_mapping_def Timestamp_def ts_le_def Let_def)

text \<open>
  C10. In every portfolio of the catalog the weights are positive and their sum is
  exactly 1, so that a sum of returns weighted by them, one return for each ticker, lies
  between any two bounds of these returns. For every row of the table that
  \<open>get_portfolio_data\<close> returns for the portfolio, when every ticker has data with
  distinct dates and a return on the date of the row, the portfolio return of the row is
  this weighted sum of the returns of the tickers on that date: a convex combination.
\<close>

theorem catalog_weights_convex:
  assumes "(name, portfolio) \<in> set portfolios"
  shows "(\<forall>(ticker, weight) \<in> set portfolio. 0 < weight)
     \<and> sum_list (map snd portfolio) = 1
     \<and> (\<forall>r lo hi. (\<forall>(ticker, weight) \<in> set portfolio. lo \<le> r ticker \<and> r ticker \<le> hi) \<longrightarrow>
           lo \<le> (\<Sum>(ticker, weight)\<leftarrow>portfolio. weight * r ticker)
           \<and> (\<Sum>(ticker, weight)\<leftarrow>portfolio. weight * r ticker) \<le> hi)
     \<and> (\<forall>mapping files start_date end_date table i r.
           get_portfolio_data portfolios mapping files name start_date end_date = Some table
           \<and> i < length table
           \<and> (\<forall>(ticker, weight) \<in> set portfolio.
                 \<exists>td. get_ticker_data_for_period mapping files ticker start_date end_date = Some td
                   \<and> distinct (map tdate td)
                   \<and> (\<exists>row \<in> set td.
                         tdate row = date (table ! i) \<and> daily_return row = Some (r ticker)))
           \<longrightarrow> portfolio_return (table ! i) =
                 (\<Sum>(ticker, weight)\<leftarrow>portfolio. weight * r ticker))"
proof -
  from catalog_weights [OF assms]
  have pos: "\<forall>(ticker, weight) \<in> set portfolio. 0 < weight"
    and one: "sum_list (map snd portfolio) = 1"
    by simp_all
  from pos have nonneg: "\<forall>(ticker, weight) \<in> set portfolio. 0 \<le> weight"
    by auto
  have conv: "lo \<le> (\<Sum>(ticker, weight)\<leftarrow>portfolio. weight * r ticker)
      \<and> (\<Sum>(ticker, weight)\<leftarrow>portfolio. weight * r ticker) \<le> hi"
    if "\<forall>(ticker, weight) \<in> set portfolio. lo \<le> r ticker \<and> r ticker \<le> hi"
    for r :: "string \<Rightarrow> real" and lo hi
    using weighted_sum_bounds [OF nonneg that] by (simp add: one)
  from catalog_lookup [OF assms]
  have cat: "map_of portfolios name = Some portfolio" and ne: "portfolio \<noteq> []"
    by simp_all
  have code: "portfolio_return (table ! i) = (\<Sum>(ticker, weight)\<leftarrow>portfolio. weight * r ticker)"
    if "get_portfolio_data portfolios mapping files name start_date end_date = Some table
           \<and> i < length table
           \<and> (\<forall>(ticker, weight) \<in> set portfolio.
                 \<exists>td. get_ticker_data_for_period mapping files ticker start_date end_date = Some td
                   \<and> distinct (map tdate td)
                   \<and> (\<exists>row \<in> set td.
                         tdate row = date (table ! i) \<and> daily_return row = Some (r ticker)))"
    for mapping files start_date end_date table i and r :: "string \<Rightarrow> real"
  proof -
    from that have run: "get_portfolio_data portfolios mapping files name start_date end_date = Some table"
      and i: "i < length table"
      and data: "\<forall>(ticker, weight) \<in> set portfolio.
                 \<exists>td. get_ticker_data_for_period mapping files ticker start_date end_date = Some td
                   \<and> distinct (map tdate td)
                   \<and> (\<exists>row \<in> set td.
                         tdate row = date (table ! i) \<and> daily_return row = Some (r ticker))"
      by simp_all
    from cat ne run i data show ?thesis
      by (rule portfolio_return_weighted_sum)
  qed
  from pos one conv code show ?thesis
    by blast
qed

theorem catalog_weights_convex_witness:
  "(''Two-fund Portfolio'', [(''VT'', 60 / 100), (''BND'', 40 / 100)]) \<in> set portfolios
   \<and> sum_list (map snd [(''VT'', 60 / 100 :: real), (''BND'', 40 / 100)]) = 1
   \<and> get_portfolio_data portfolios file_mapping example_files ''Two-fund Portfolio'' None None =
       Some two_fund_table
   \<and> portfolio_return (two_fund_table ! 1) = 60 / 100 * (1 / 100) + 40 / 100 * 0
   \<and> 0 \<le> portfolio_return (two_fund_table ! 1)
   \<and> portfolio_return (two_fund_table ! 1) \<le> 1 / 100"
proof -
  define r :: "string \<Rightarrow> real" where "r = (\<lambda>ticker. if ticker = ''VT'' then 1 / 100 else 0)"
  have mem: "(''Two-fund Portfolio'', [(''VT'', 60 / 100), (''BND'', 40 / 100)]) \<in> set portfolios"
    by (simp add: portfolios_def)
  from catalog_weights_convex [OF mem]
  have one: "sum_list (map snd [(''VT'', 60 / 100 :: real), (''BND'', 40 / 100)]) = 1"
    and conv: "\<And>r lo hi.
      \<forall>(ticker, weight) \<in> set [(''VT'', 60 / 100 :: real), (''BND'', 40 / 100)].
         lo \<le> r ticker \<and> r ticker \<le> hi \<Longrightarrow>
      lo \<le> (\<Sum>(ticker, weight)\<leftarrow>[(''VT'', 60 / 100 :: real), (''BND'', 40 / 100)]. weight * r ticker)
      \<and> (\<Sum>(ticker, weight)\<leftarrow>[(''VT'', 60 / 100 :: real), (''BND'', 40 / 100)]. weight * r ticker) \<le> hi"
    and code: "\<And>mapping files start_date end_date table i r.
       get_portfolio_data portfolios mapping files ''Two-fund Portfolio'' start_date end_date =
         Some table
       \<and> i < length table
       \<and> (\<forall>(ticker, weight) \<in> set [(''VT'', 60 / 100 :: real), (''BND'', 40 / 100)].
             \<exists>td. get_ticker_data_for_period mapping files ticker start_date end_date = Some td
               \<and> distinct (map tdate td)
               \<and> (\<exists>row \<in> set td.
                     tdate row = date (table ! i) \<and> daily_return row = Some (r ticker)))
       \<Longrightarrow> portfolio_return (table ! i) =
             (\<Sum>(ticker, weight)\<leftarrow>[(''VT'', 60 / 100 :: real), (''BND'', 40 / 100)]. weight * r ticker)"
    by blast+
  have data: "get_portfolio_data portfolios file_mapping example_files ''Two-fund Portfolio''
         None None = Some two_fund_table
       \<and> 1 < length two_fund_table
       \<and> (\<forall>(ticker, weight) \<in> set [(''VT'', 60 / 100 :: real), (''BND'', 40 / 100)].
             \<exists>td. get_ticker_data_for_period file_mapping example_files ticker None None = Some td
               \<and> distinct (map tdate td)
               \<and> (\<exists>row \<in> set td.
                     tdate row = date (two_fund_table ! 1) \<and> daily_return row = Some (r ticker)))"
    by (simp add: two_fund_example example_ticker_data r_def)
      (simp add: two_fund_table_def Timestamp_def)
  from code [OF data]
  have ret: "portfolio_return (two_fund_table ! 1) = 60 / 100 * (1 / 100) + 40 / 100 * 0"
    by (simp add: r_def)
  have "\<forall>(ticker, weight) \<in> set [(''VT'', 60 / 100 :: real), (''BND'', 40 / 100)].
         0 \<le> r ticker \<and> r ticker \<le> 1 / 100"
    by (simp add: r_def)
  from conv [OF this] code [OF data]
  have "0 \<le> portfolio_return (two_fund_table ! 1)"
    "portfolio_return (two_fund_table ! 1) \<le> 1 / 100"
    by simp_all
  with mem one two_fund_example ret show ?thesis
    by (intro conjI)
qed

section \<open>The simulation on a table with no row\<close>

lemma lazy_three_fund_before_data:
  "get_portfolio_data portfolios file_mapping partial_files
     ''Rick Ferri's Lazy Three-Fund Portfolio''
     (Some (Timestamp 2019 1 1)) (Some (Timestamp 2019 6 30)) = Some []"
  by (simp add: partial_files_def aggregate_eval)

text \<open>
  C8. A range of dates before the first row of the files: \<open>get_portfolio_data\<close> returns
  a table with no row, not \<^verbatim>\<open>None\<close>, and on this table \<open>simulate_growth\<close> returns
  no failure: the positional write of line 47 raises \<^verbatim>\<open>IndexError\<close>.
\<close>

theorem simulate_growth_on_empty_table:
  "get_portfolio_data portfolios file_mapping partial_files
     ''Rick Ferri's Lazy Three-Fund Portfolio''
     (Some (Timestamp 2019 1 1)) (Some (Timestamp 2019 6 30)) = Some []
   \<and> simulate_growth
       (get_portfolio_data portfolios file_mapping partial_files
          ''Rick Ferri's Lazy Three-Fund Portfolio''
          (Some (Timestamp 2019 1 1)) (Some (Timestamp 2019 6 30)))
       10000 500 = Inl IndexError"
  by (simp add: lazy_three_fund_before_data simulate_growth_def)

end
